theory Spec2Isabelle
  imports Complex_Main "HOL-Library.Word"
begin

section \<open>Calldata generation for the approve-and-swap message\<close>

text \<open>
  This theory embeds \<^verbatim>\<open>src/utils/transactions.ts\<close>: the exported calldata generators
  \<^verbatim>\<open>generateApproveCallData\<close> and \<^verbatim>\<open>generateExchangeCallData\<close>, and the private
  helpers \<^verbatim>\<open>calculateAdjustedMinOutput\<close> and \<^verbatim>\<open>getMinDy\<close>.

  A TypeScript \<^verbatim>\<open>bigint\<close> is an unbounded integer and is modelled as \<^typ>\<open>int\<close>. An
  \<^verbatim>\<open>Address\<close> and the returned calldata are both values of the template type
  \<^verbatim>\<open>`0x${string}`\<close>, that is strings, and are modelled as \<^typ>\<open>string\<close>. A thrown
  error (a rejected promise for the asynchronous functions) is the \<open>Inl\<close> branch of a
  sum type.
\<close>

subsection \<open>Hexadecimal strings\<close>

text \<open>
  Modelled from the spec: the library \<^verbatim>\<open>viem\<close>, imported by
  \<^verbatim>\<open>transactions.ts\<close> for \<^verbatim>\<open>encodeFunctionData\<close>, \<^verbatim>\<open>parseAbiItem\<close> and the chain
  client, is a dependency and not a file of the repository. The spec fixes the ABI-level
  contract that the encoded calls reproduce (a four-byte selector of the signature followed
  by one 32-byte word per argument). The definitions of this subsection and of the next
  two model the library functions that the source calls, by the names the library gives
  them: hex strings are lower-case, \<^verbatim>\<open>0x\<close>-prefixed, two digits per byte.
\<close>

definition hexChar :: "int \<Rightarrow> char" where
  "hexChar d = ''0123456789abcdef'' ! nat d"

definition hexValue :: "char \<Rightarrow> int option" where
  "hexValue c = map_of (zip ''0123456789abcdefABCDEF''
                  [0, 1, 2, 3, 4, 5, 6, 7, 8, 9, 10, 11, 12, 13, 14, 15, 10, 11, 12, 13, 14, 15]) c"

text \<open>The character class \<^verbatim>\<open>[a-fA-F0-9]\<close>.\<close>

definition isHexChar :: "char \<Rightarrow> bool" where
  "isHexChar c = (c \<in> set ''0123456789abcdefABCDEF'')"

text \<open>
  \<^verbatim>\<open>String.prototype.toLowerCase\<close> and \<^verbatim>\<open>toUpperCase\<close> on ASCII text. The library
  applies them to addresses only after the address pattern has matched, so only ASCII
  characters reach them.
\<close>

definition toLowerChar :: "char \<Rightarrow> char" where
  "toLowerChar c =
     (case map_of (zip ''ABCDEFGHIJKLMNOPQRSTUVWXYZ'' ''abcdefghijklmnopqrstuvwxyz'') c of
        None \<Rightarrow> c | Some l \<Rightarrow> l)"

definition toUpperChar :: "char \<Rightarrow> char" where
  "toUpperChar c =
     (case map_of (zip ''abcdefghijklmnopqrstuvwxyz'' ''ABCDEFGHIJKLMNOPQRSTUVWXYZ'') c of
        None \<Rightarrow> c | Some u \<Rightarrow> u)"

definition toLowerCase :: "string \<Rightarrow> string" where
  "toLowerCase s = map toLowerChar s"

text \<open>The \<open>k\<close> low hexadecimal digits of \<open>v\<close>, most significant first.\<close>

fun hexDigits :: "nat \<Rightarrow> int \<Rightarrow> string" where
  "hexDigits 0 v = []"
| "hexDigits (Suc k) v = hexDigits k (v div 16) @ [hexChar (v mod 16)]"

definition bytesToHex :: "int list \<Rightarrow> string" where
  "bytesToHex bs = concat (map (hexDigits 2) bs)"

definition stringToBytes :: "string \<Rightarrow> int list" where
  "stringToBytes s = map of_char s"

text \<open>The number of bytes that a \<^verbatim>\<open>0x\<close>-prefixed hex string denotes.\<close>

definition size_hex :: "string \<Rightarrow> nat" where
  "size_hex h = (length h - 2) div 2"

subsection \<open>Keccak-256\<close>

text \<open>
  The library derives function selectors and address checksums from Keccak-256. The
  permutation Keccak-f[1600] works on 25 lanes of 64 bits, lane \<open>(x, y)\<close> at index
  \<open>x + 5 * y\<close>; a lane is a list of 64 bits, least significant first. The message is a
  byte string, so its bit length is a multiple of 8; the rate is 1088 bits.
\<close>

type_synonym lane = "bool list"

fun bits_of :: "nat \<Rightarrow> int \<Rightarrow> bool list" where
  "bits_of 0 v = []"
| "bits_of (Suc k) v = odd v # bits_of k (v div 2)"

fun int_of_bits :: "bool list \<Rightarrow> int" where
  "int_of_bits [] = 0"
| "int_of_bits (b # bs) = (if b then 1 else 0) + 2 * int_of_bits bs"

fun chunks :: "nat \<Rightarrow> nat \<Rightarrow> 'a list \<Rightarrow> 'a list list" where
  "chunks 0 w xs = []"
| "chunks (Suc n) w xs = take w xs # chunks n w (drop w xs)"

definition xor_lane :: "lane \<Rightarrow> lane \<Rightarrow> lane" where
  "xor_lane a b = map2 (\<lambda>p q. p \<noteq> q) a b"

definition andn_lane :: "lane \<Rightarrow> lane \<Rightarrow> lane" where
  "andn_lane a b = map2 (\<lambda>p q. \<not> p \<and> q) a b"

definition rotl_lane :: "nat \<Rightarrow> lane \<Rightarrow> lane" where
  "rotl_lane n a = drop (64 - n) a @ take (64 - n) a"

definition keccak_RC :: "int list" where
  "keccak_RC =
     [0x0000000000000001, 0x0000000000008082, 0x800000000000808A, 0x8000000080008000,
      0x000000000000808B, 0x0000000080000001, 0x8000000080008081, 0x8000000000008009,
      0x000000000000008A, 0x0000000000000088, 0x0000000080008009, 0x000000008000000A,
      0x000000008000808B, 0x800000000000008B, 0x8000000000008089, 0x8000000000008003,
      0x8000000000008002, 0x8000000000000080, 0x000000000000800A, 0x800000008000000A,
      0x8000000080008081, 0x8000000000008080, 0x0000000080000001, 0x8000000080008008]"

definition keccak_ROT :: "nat list" where
  "keccak_ROT =
     [0, 1, 62, 28, 27,
      36, 44, 6, 55, 20,
      3, 10, 43, 25, 39,
      41, 45, 15, 21, 8,
      18, 2, 61, 56, 14]"

definition theta :: "lane list \<Rightarrow> lane list" where
  "theta a =
    (let c = map (\<lambda>x. xor_lane (a ! x) (xor_lane (a ! (x + 5)) (xor_lane (a ! (x + 10))
                       (xor_lane (a ! (x + 15)) (a ! (x + 20)))))) [0..<5];
         d = map (\<lambda>x. xor_lane (c ! ((x + 4) mod 5)) (rotl_lane 1 (c ! ((x + 1) mod 5)))) [0..<5]
     in map (\<lambda>i. xor_lane (a ! i) (d ! (i mod 5))) [0..<25])"

text \<open>
  The steps rho and pi together: the lane written to \<open>(X, Y)\<close> is the lane read from
  \<open>(x, y)\<close> with \<open>y = X\<close> and \<open>x = (X + 3 * Y) mod 5\<close>, rotated by its offset.
\<close>

definition rho_pi :: "lane list \<Rightarrow> lane list" where
  "rho_pi a =
     map (\<lambda>i. let s = (i mod 5 + 3 * (i div 5)) mod 5 + 5 * (i mod 5)
               in rotl_lane (keccak_ROT ! s) (a ! s)) [0..<25]"

definition chi :: "lane list \<Rightarrow> lane list" where
  "chi b =
     map (\<lambda>i. xor_lane (b ! i)
                 (andn_lane (b ! ((i mod 5 + 1) mod 5 + 5 * (i div 5)))
                            (b ! ((i mod 5 + 2) mod 5 + 5 * (i div 5))))) [0..<25]"

definition iota :: "int \<Rightarrow> lane list \<Rightarrow> lane list" where
  "iota rc a = (case a of [] \<Rightarrow> [] | l # ls \<Rightarrow> xor_lane l (bits_of 64 rc) # ls)"

definition keccak_round :: "lane list \<Rightarrow> int \<Rightarrow> lane list" where
  "keccak_round a rc = iota rc (chi (rho_pi (theta a)))"

definition keccak_f :: "lane list \<Rightarrow> lane list" where
  "keccak_f a = foldl keccak_round a keccak_RC"

definition absorb_block :: "lane list \<Rightarrow> bool list \<Rightarrow> lane list" where
  "absorb_block a blk =
     keccak_f (map2 xor_lane a (chunks 17 64 blk @ replicate 8 (replicate 64 False)))"

definition pad101 :: "bool list \<Rightarrow> bool list" where
  "pad101 m = m @ [True] @ replicate ((1086 - length m mod 1088) mod 1088) False @ [True]"

definition keccak256 :: "int list \<Rightarrow> int list" where
  "keccak256 m =
     (let p = pad101 (concat (map (bits_of 8) m));
          a = foldl absorb_block (replicate 25 (replicate 64 False))
                (chunks (length p div 1088) 1088 p)
      in map int_of_bits (chunks 32 8 (concat (take 4 a))))"

subsection \<open>ABI encoding of a function call\<close>

datatype error =
    InvalidAddressError string
  | IntegerOutOfRangeError int
  | ContractFunctionExecutionError string

text \<open>
  \<^verbatim>\<open>toFunctionSelector\<close>: the first four bytes of the hash of the signature. The
  signature is the one \<^verbatim>\<open>parseAbiItem\<close> and \<^verbatim>\<open>formatAbiItem\<close> produce from the
  human-readable item in the source: the name and the parameter types, without
  parameter names or spaces.
\<close>

definition toFunctionSelector :: "string \<Rightarrow> string" where
  "toFunctionSelector signature = ''0x'' @ bytesToHex (take 4 (keccak256 (stringToBytes signature)))"

text \<open>
  \<^verbatim>\<open>checksumAddress\<close> (without chain id): the hex digit at position \<open>i < 40\<close> is put in
  upper case when the \<open>i\<close>-th half-byte of the hash of the lower-case digits is 8 or more.
\<close>

definition checksumAddress :: "string \<Rightarrow> string" where
  "checksumAddress addr =
     (let hexAddress = toLowerCase (drop 2 addr);
          hash = keccak256 (stringToBytes hexAddress);
          nibbles = concat (map (\<lambda>b. [b div 16, b mod 16]) hash)
      in ''0x'' @ map2 (\<lambda>c n. if 8 \<le> n then toUpperChar c else c) (take 40 hexAddress) nibbles
              @ drop 40 hexAddress)"

text \<open>The pattern \<^verbatim>\<open>/^0x[a-fA-F0-9]{40}$/\<close>.\<close>

definition addressRegex :: "string \<Rightarrow> bool" where
  "addressRegex s = (length s = 42 \<and> take 2 s = ''0x'' \<and> list_all isHexChar (drop 2 s))"

text \<open>
  \<^verbatim>\<open>isAddress\<close> in its default strict mode: the pattern must match, and an address that
  is not all lower case must carry its checksum.
\<close>

definition isAddress :: "string \<Rightarrow> bool" where
  "isAddress addr =
     (if \<not> addressRegex addr then False
      else if toLowerCase addr = addr then True
      else checksumAddress addr = addr)"

text \<open>
  \<^verbatim>\<open>numberToHex(value, { size, signed })\<close>: the range check of the \<open>size\<close>-byte
  integer, then the two's complement of a negative value, in \<open>2 * size\<close> digits.
\<close>

definition numberToHex :: "nat \<Rightarrow> bool \<Rightarrow> int \<Rightarrow> error + string" where
  "numberToHex sz is_signed v =
     (let maxValue = (if is_signed then 2 ^ (8 * sz - 1) - 1 else 2 ^ (8 * sz) - 1);
          minValue = (if is_signed then - maxValue - 1 else 0)
      in if v > maxValue \<or> v < minValue then Inl (IntegerOutOfRangeError v)
         else Inr (hexDigits (2 * sz) (if is_signed \<and> v < 0 then 2 ^ (8 * sz) + v else v)))"

text \<open>
  \<^verbatim>\<open>padHex\<close> to 32 bytes on the left; the result is kept without its prefix, as it is
  concatenated after the selector. It is applied to a validated address, of 40 digits.
\<close>

definition padHex :: "string \<Rightarrow> string" where
  "padHex h = replicate (64 - length (drop 2 h)) CHR ''0'' @ drop 2 h"

text \<open>
  An argument together with its ABI type: \<^verbatim>\<open>address\<close>, \<^verbatim>\<open>uintN\<close> or \<^verbatim>\<open>intN\<close>.
  These are the only types in the two signatures of the source, and all are static, so
  the encoding of an argument list is the concatenation of one word per argument.
  \<^verbatim>\<open>encodeAddress\<close> validates the address; \<^verbatim>\<open>encodeNumber\<close> checks the value against
  the declared bit size. Arguments are encoded in order, so the first invalid one raises.
\<close>

datatype abi_arg = AddressArg string | UIntArg nat int | IntArg nat int

fun encodeParam :: "abi_arg \<Rightarrow> error + string" where
  "encodeParam (AddressArg v) =
     (if \<not> isAddress v then Inl (InvalidAddressError v) else Inr (padHex (toLowerCase v)))"
| "encodeParam (UIntArg sz v) =
     (if v > 2 ^ sz - 1 \<or> v < 0 then Inl (IntegerOutOfRangeError v)
      else numberToHex 32 False v)"
| "encodeParam (IntArg sz v) =
     (let maxv = 2 ^ (sz - 1) - 1; minv = - maxv - 1
      in if v > maxv \<or> v < minv then Inl (IntegerOutOfRangeError v)
         else numberToHex 32 True v)"

fun encodeAbiParameters :: "abi_arg list \<Rightarrow> error + string" where
  "encodeAbiParameters [] = Inr []"
| "encodeAbiParameters (p # ps) =
     (case encodeParam p of
        Inl e \<Rightarrow> Inl e
      | Inr h \<Rightarrow> (case encodeAbiParameters ps of Inl e \<Rightarrow> Inl e | Inr t \<Rightarrow> Inr (h @ t)))"

definition encodeFunctionData :: "string \<Rightarrow> abi_arg list \<Rightarrow> error + string" where
  "encodeFunctionData signature args =
     (case encodeAbiParameters args of
        Inl e \<Rightarrow> Inl e
      | Inr d \<Rightarrow> Inr (toFunctionSelector signature @ d))"

subsection \<open>Chain reads\<close>

text \<open>
  \<^verbatim>\<open>publicClient.readContract\<close> is the one operation with an effect: a read of the
  chain through the network. It is a parameter of the model. A \<open>query\<close> records what the
  source passes to it; the \<open>chain\<close> answers the \<open>n\<close>-th read since the start of the
  trace either with an error (the call fails for whatever reason) or with the decoded
  \<^verbatim>\<open>uint256\<close> result. The trace is the list of reads issued so far, oldest first.
\<close>

record query =
  q_address :: string
  q_functionName :: string
  q_args :: "int list"

type_synonym chain = "nat \<Rightarrow> query \<Rightarrow> error + 256 word"

abbreviation get_dy_query :: "string \<Rightarrow> int \<Rightarrow> int \<Rightarrow> int \<Rightarrow> query" where
  "get_dy_query pool i j dx \<equiv> \<lparr>q_address = pool, q_functionName = ''get_dy'', q_args = [i, j, dx]\<rparr>"

text \<open>A quoter whose answer depends on the query, for the examples.\<close>

definition stub_quoter :: chain where
  "stub_quoter n q = (if q_args q = [1, 0, 100000000] then Inr 99000000 else Inr 49000000)"

subsection \<open>The functions of transactions.ts\<close>

text \<open>
  \<^verbatim>\<open>generateApproveCallData(spender, amount)\<close> encodes a call of
  \<^verbatim>\<open>function approve(address spender, uint256 value)\<close>.
\<close>

definition generateApproveCallData :: "string \<Rightarrow> int \<Rightarrow> error + string" where
  "generateApproveCallData spender amount =
     encodeFunctionData ''approve(address,uint256)'' [AddressArg spender, UIntArg 256 amount]"

text \<open>
  The operator \<^verbatim>\<open>/\<close> on \<^verbatim>\<open>bigint\<close> truncates towards zero, whereas \<open>div\<close> on
  \<^typ>\<open>int\<close> rounds towards minus infinity. The divisor in the source is the non-zero
  literal \<^verbatim>\<open>10000n\<close>, so the \<^verbatim>\<open>RangeError\<close> of a zero divisor cannot arise.
\<close>

definition bigint_div :: "int \<Rightarrow> int \<Rightarrow> int" where
  "bigint_div a b = sgn a * sgn b * (\<bar>a\<bar> div \<bar>b\<bar>)"

text \<open>
  \<^verbatim>\<open>function calculateAdjustedMinOutput(amount: bigint, slippageBps: bigint = 3n): bigint\<close>.
  The optional second parameter is an \<^typ>\<open>int option\<close>; \<open>None\<close> is the omitted
  argument, replaced by the default \<^verbatim>\<open>3n\<close>. The function has no failing branch.
\<close>

definition calculateAdjustedMinOutput :: "int \<Rightarrow> int option \<Rightarrow> int" where
  "calculateAdjustedMinOutput amount slippageBps_opt =
     (let slippageBps = (case slippageBps_opt of None \<Rightarrow> 3 | Some b \<Rightarrow> b)
      in bigint_div (amount * (10000 - slippageBps)) 10000)"

text \<open>
  \<^verbatim>\<open>getMinDy\<close> creates a client and awaits one \<^verbatim>\<open>readContract\<close> of \<^verbatim>\<open>get_dy\<close>
  with the arguments \<open>[i, j, dx]\<close>. It returns the result, or the error of the read,
  and the trace extended by this read.
\<close>

definition getMinDy ::
  "chain \<Rightarrow> query list \<Rightarrow> string \<Rightarrow> int \<Rightarrow> int \<Rightarrow> int \<Rightarrow> (error + int) \<times> query list" where
  "getMinDy readContract trace swapContractAddress i j dx =
     (let q = \<lparr>q_address = swapContractAddress, q_functionName = ''get_dy'', q_args = [i, j, dx]\<rparr>
      in (case readContract (length trace) q of
            Inl e \<Rightarrow> Inl e
          | Inr dy \<Rightarrow> Inr (uint dy),
          trace @ [q]))"

text \<open>
  \<^verbatim>\<open>generateExchangeCallData\<close> awaits \<^verbatim>\<open>getMinDy\<close>, adjusts the quote with the
  default slippage, and encodes a call of
  \<^verbatim>\<open>function exchange(int128 i,int128 j,uint256 _dx,uint256 _min_dy,address _receiver)\<close>.
  An error of the awaited read leaves the function at once.
\<close>

definition generateExchangeCallData ::
  "chain \<Rightarrow> query list \<Rightarrow> string \<Rightarrow> int \<Rightarrow> int \<Rightarrow> int \<Rightarrow> string
     \<Rightarrow> (error + string) \<times> query list" where
  "generateExchangeCallData readContract trace swapContractAddress i j dx receiver =
     (case getMinDy readContract trace swapContractAddress i j dx of
        (Inl e, trace') \<Rightarrow> (Inl e, trace')
      | (Inr minDy, trace') \<Rightarrow>
          (let adjustedMinDy = calculateAdjustedMinOutput minDy None
           in (encodeFunctionData ''exchange(int128,int128,uint256,uint256,address)''
                 [IntArg 128 i, IntArg 128 j, UIntArg 256 dx, UIntArg 256 adjustedMinDy,
                  AddressArg receiver],
               trace')))"

subsection \<open>ABI decoding\<close>

text \<open>
  The reference decoder against which the encoded calls are read back. It checks the
  selector, cuts the data into 32-byte words and reads each word by its type: an address
  is the last 20 bytes of its word, in lower case; a signed integer is the two's
  complement of its word. \<open>canonical\<close> is the argument as the decoder returns it: an
  address is compared as the 20 bytes it denotes, whatever the case of its digits.
\<close>

datatype abi_type = AddressT | UIntT nat | IntT nat

fun hexToBigInt_from :: "int \<Rightarrow> string \<Rightarrow> int option" where
  "hexToBigInt_from acc [] = Some acc"
| "hexToBigInt_from acc (c # cs) =
     (case hexValue c of None \<Rightarrow> None | Some d \<Rightarrow> hexToBigInt_from (16 * acc + d) cs)"

definition hexToBigInt :: "string \<Rightarrow> int option" where
  "hexToBigInt h = hexToBigInt_from 0 h"

fun decodeParam :: "abi_type \<Rightarrow> string \<Rightarrow> abi_arg option" where
  "decodeParam AddressT w =
     (case hexToBigInt w of None \<Rightarrow> None | Some n \<Rightarrow> Some (AddressArg (''0x'' @ drop 24 w)))"
| "decodeParam (UIntT sz) w =
     (case hexToBigInt w of None \<Rightarrow> None | Some n \<Rightarrow> Some (UIntArg sz n))"
| "decodeParam (IntT sz) w =
     (case hexToBigInt w of None \<Rightarrow> None
      | Some n \<Rightarrow> Some (IntArg sz (if 2 ^ 255 \<le> n then n - 2 ^ 256 else n)))"

fun decodeAbiParameters :: "abi_type list \<Rightarrow> string \<Rightarrow> abi_arg list option" where
  "decodeAbiParameters [] d = (if d = [] then Some [] else None)"
| "decodeAbiParameters (t # ts) d =
     (if length d < 64 then None
      else (case decodeParam t (take 64 d) of
              None \<Rightarrow> None
            | Some a \<Rightarrow> (case decodeAbiParameters ts (drop 64 d) of
                           None \<Rightarrow> None
                         | Some as \<Rightarrow> Some (a # as))))"

definition decodeFunctionData :: "string \<Rightarrow> abi_type list \<Rightarrow> string \<Rightarrow> abi_arg list option" where
  "decodeFunctionData signature ts calldata =
     (if take 10 calldata = toFunctionSelector signature
      then decodeAbiParameters ts (drop 10 calldata) else None)"

fun abi_type_of :: "abi_arg \<Rightarrow> abi_type" where
  "abi_type_of (AddressArg v) = AddressT"
| "abi_type_of (UIntArg sz v) = UIntT sz"
| "abi_type_of (IntArg sz v) = IntT sz"

fun canonical :: "abi_arg \<Rightarrow> abi_arg" where
  "canonical (AddressArg v) = AddressArg (toLowerCase v)"
| "canonical (UIntArg sz v) = UIntArg sz v"
| "canonical (IntArg sz v) = IntArg sz v"

section \<open>Properties of the slippage adjustment\<close>

lemma bigint_div_nonneg: "0 \<le> a \<Longrightarrow> 0 < b \<Longrightarrow> bigint_div a b = a div b"
  by (cases "a = 0") (simp_all add: bigint_div_def)

lemma bigint_div_nonpos: "a \<le> 0 \<Longrightarrow> 0 < b \<Longrightarrow> bigint_div a b = - ((- a) div b)"
  by (cases "a = 0") (simp_all add: bigint_div_def)

lemma adjusted_nonneg:
  "0 \<le> amount \<Longrightarrow> bps \<le> 10000 \<Longrightarrow>
   calculateAdjustedMinOutput amount (Some bps) = (amount * (10000 - bps)) div 10000"
  by (simp add: calculateAdjustedMinOutput_def bigint_div_nonneg)

text \<open>
  Claim C1. For every amount \<open>amount \<ge> 0\<close> and every \<open>slippageBps\<close> in \<open>[0, 10000)\<close>,
  \<^verbatim>\<open>calculateAdjustedMinOutput\<close> returns exactly
  \<open>floor (amount * (10000 - slippageBps) / 10000)\<close> (the floor of the rational quotient,
  computed with integers only); an omitted \<open>slippageBps\<close> means 3; and
  \<open>adjust(1_000_000, 3) = 999_700\<close>, \<open>adjust(100, 9999) = 0\<close>.
\<close>

theorem calculateAdjustedMinOutput_floor:
  assumes "0 \<le> amount" and "0 \<le> slippageBps" and "slippageBps < 10000"
  shows "calculateAdjustedMinOutput amount (Some slippageBps)
           = \<lfloor>real_of_int (amount * (10000 - slippageBps)) / 10000\<rfloor>
         \<and> calculateAdjustedMinOutput amount None = calculateAdjustedMinOutput amount (Some 3)
         \<and> calculateAdjustedMinOutput 1000000 (Some 3) = 999700
         \<and> calculateAdjustedMinOutput 100 (Some 9999) = 0"
proof -
  have "\<lfloor>real_of_int (amount * (10000 - slippageBps)) / real_of_int 10000\<rfloor>
          = (amount * (10000 - slippageBps)) div 10000"
    by (rule floor_divide_of_int_eq)
  then have "calculateAdjustedMinOutput amount (Some slippageBps)
           = \<lfloor>real_of_int (amount * (10000 - slippageBps)) / 10000\<rfloor>"
    using assms by (simp add: adjusted_nonneg)
  moreover have "calculateAdjustedMinOutput amount None = calculateAdjustedMinOutput amount (Some 3)"
    by (simp add: calculateAdjustedMinOutput_def)
  moreover have "calculateAdjustedMinOutput 1000000 (Some 3) = 999700"
    by (simp add: calculateAdjustedMinOutput_def bigint_div_def)
  moreover have "calculateAdjustedMinOutput 100 (Some 9999) = 0"
    by (simp add: calculateAdjustedMinOutput_def bigint_div_def)
  ultimately show ?thesis by blast
qed

theorem calculateAdjustedMinOutput_floor_witness:
  "(0::int) \<le> 12345 \<and> (0::int) \<le> 250 \<and> (250::int) < 10000
   \<and> calculateAdjustedMinOutput 12345 (Some 250) = \<lfloor>real_of_int (12345 * (10000 - 250)) / 10000\<rfloor>
   \<and> calculateAdjustedMinOutput 12345 (Some 250) = 12036
   \<and> calculateAdjustedMinOutput 12345 None = 12341"
proof -
  have v: "calculateAdjustedMinOutput 12345 (Some 250) = 12036"
          "calculateAdjustedMinOutput 12345 (Some 3) = 12341"
    by (simp_all add: calculateAdjustedMinOutput_def bigint_div_def)
  show ?thesis
    using calculateAdjustedMinOutput_floor [of 12345 250] v by simp
qed

text \<open>
  Claim C2 (as stated: a \<open>slippageBps\<close> of 10000 or more fails with InvalidParameter and
  never silently returns 0 or a negative value). The function has no validation and no
  failing branch: at \<open>slippageBps = 10000\<close> it returns 0, and above it a negative value.
\<close>

theorem calculateAdjustedMinOutput_no_validation_counterexample:
  "calculateAdjustedMinOutput 1000000 (Some 10000) = 0
   \<and> calculateAdjustedMinOutput 1000000 (Some 20000) = - 1000000"
  by (simp add: calculateAdjustedMinOutput_def bigint_div_def)

text \<open>
  Claim C2 (amended). \<^verbatim>\<open>calculateAdjustedMinOutput\<close> does not validate \<open>slippageBps\<close>
  and always returns a value: with \<open>slippageBps = 10000\<close> the result is 0 for every
  amount, and with any \<open>slippageBps \<ge> 10000\<close> and a non-negative amount the result is
  the non-positive number \<open>- (amount * (slippageBps - 10000) div 10000)\<close>.
\<close>

theorem calculateAdjustedMinOutput_out_of_range:
  "calculateAdjustedMinOutput amount (Some 10000) = 0
   \<and> (10000 \<le> slippageBps \<and> 0 \<le> amount \<longrightarrow>
        calculateAdjustedMinOutput amount (Some slippageBps)
          = - ((amount * (slippageBps - 10000)) div 10000)
        \<and> calculateAdjustedMinOutput amount (Some slippageBps) \<le> 0)"
proof -
  have a: "calculateAdjustedMinOutput amount (Some 10000) = 0"
    by (simp add: calculateAdjustedMinOutput_def bigint_div_def)
  have b: "calculateAdjustedMinOutput amount (Some slippageBps)
             = - ((amount * (slippageBps - 10000)) div 10000)
           \<and> calculateAdjustedMinOutput amount (Some slippageBps) \<le> 0"
    if h: "10000 \<le> slippageBps" "0 \<le> amount"
  proof -
    have le: "amount * (10000 - slippageBps) \<le> 0"
      using h by (simp add: mult_nonneg_nonpos)
    have neg: "- (amount * (10000 - slippageBps)) = amount * (slippageBps - 10000)"
      by (simp add: algebra_simps)
    have eq: "calculateAdjustedMinOutput amount (Some slippageBps)
                = - ((amount * (slippageBps - 10000)) div 10000)"
      using bigint_div_nonpos [OF le, of 10000] neg
      by (simp add: calculateAdjustedMinOutput_def)
    have "0 \<le> (amount * (slippageBps - 10000)) div 10000"
      using h by (simp add: pos_imp_zdiv_nonneg_iff)
    with eq show ?thesis by simp
  qed
  from a b show ?thesis by blast
qed

theorem calculateAdjustedMinOutput_out_of_range_witness:
  "(10000::int) \<le> 12500 \<and> (0::int) \<le> 1000000
   \<and> calculateAdjustedMinOutput 1000000 (Some 12500) = - 250000
   \<and> calculateAdjustedMinOutput 1000000 (Some 12500) \<le> 0"
  using calculateAdjustedMinOutput_out_of_range [of 1000000 12500] by simp

text \<open>
  Claim C4. For every amount \<open>a \<ge> 0\<close> and every \<open>slippageBps\<close> in \<open>[0, 9999]\<close>:
  the adjusted amount never exceeds \<open>a\<close>, it equals \<open>a\<close> at zero slippage, and the
  adjusted amount of 0 is 0.
\<close>

theorem calculateAdjustedMinOutput_bounds:
  assumes "0 \<le> a" and "0 \<le> slippageBps" and "slippageBps \<le> 9999"
  shows "calculateAdjustedMinOutput a (Some slippageBps) \<le> a
         \<and> calculateAdjustedMinOutput a (Some 0) = a
         \<and> calculateAdjustedMinOutput 0 (Some slippageBps) = 0"
proof -
  have "amount_scaled \<le> a * 10000" if "amount_scaled = a * (10000 - slippageBps)" for amount_scaled
    using that assms by (simp add: mult_left_mono)
  then have "(a * (10000 - slippageBps)) div 10000 \<le> (a * 10000) div 10000"
    by (simp add: zdiv_mono1)
  then have "calculateAdjustedMinOutput a (Some slippageBps) \<le> a"
    using assms by (simp add: adjusted_nonneg)
  moreover have "calculateAdjustedMinOutput a (Some 0) = a"
    using assms by (simp add: adjusted_nonneg)
  moreover have "calculateAdjustedMinOutput 0 (Some slippageBps) = 0"
    by (simp add: calculateAdjustedMinOutput_def bigint_div_def)
  ultimately show ?thesis by blast
qed

theorem calculateAdjustedMinOutput_bounds_witness:
  "(0::int) \<le> 99000000 \<and> (0::int) \<le> 3 \<and> (3::int) \<le> 9999
   \<and> calculateAdjustedMinOutput 99000000 (Some 3) \<le> 99000000
   \<and> calculateAdjustedMinOutput 99000000 (Some 0) = 99000000
   \<and> calculateAdjustedMinOutput 0 (Some 3) = 0"
  using calculateAdjustedMinOutput_bounds [of 99000000 3] by simp

section \<open>Properties of the encoders\<close>

subsection \<open>Hex digits and addresses\<close>

lemma hexValue_hexChar: "0 \<le> d \<Longrightarrow> d < 16 \<Longrightarrow> hexValue (hexChar d) = Some d"
proof -
  assume "0 \<le> d" "d < 16"
  then have "d = 0 \<or> d = 1 \<or> d = 2 \<or> d = 3 \<or> d = 4 \<or> d = 5 \<or> d = 6 \<or> d = 7 \<or> d = 8 \<or> d = 9
             \<or> d = 10 \<or> d = 11 \<or> d = 12 \<or> d = 13 \<or> d = 14 \<or> d = 15"
    by arith
  then show ?thesis
    by (elim disjE) (simp_all add: hexValue_def hexChar_def)
qed


lemma isHexChar_cases:
  "isHexChar c \<Longrightarrow>
     c = CHR ''0'' \<or> c = CHR ''1'' \<or> c = CHR ''2'' \<or> c = CHR ''3'' \<or> c = CHR ''4''
     \<or> c = CHR ''5'' \<or> c = CHR ''6'' \<or> c = CHR ''7'' \<or> c = CHR ''8'' \<or> c = CHR ''9''
     \<or> c = CHR ''a'' \<or> c = CHR ''b'' \<or> c = CHR ''c'' \<or> c = CHR ''d'' \<or> c = CHR ''e''
     \<or> c = CHR ''f'' \<or> c = CHR ''A'' \<or> c = CHR ''B'' \<or> c = CHR ''C'' \<or> c = CHR ''D''
     \<or> c = CHR ''E'' \<or> c = CHR ''F''"
  by (simp add: isHexChar_def)

lemma isHexChar_toLowerChar: "isHexChar c \<Longrightarrow> isHexChar (toLowerChar c)"
  by (drule isHexChar_cases, elim disjE) (simp_all add: isHexChar_def toLowerChar_def)

lemma isHexChar_hexValue: "isHexChar c \<Longrightarrow> \<exists>d. hexValue c = Some d"
  by (drule isHexChar_cases, elim disjE) (simp_all add: hexValue_def)

lemma length_hexDigits [simp]: "length (hexDigits k v) = k"
  by (induction k arbitrary: v) simp_all

lemma hexToBigInt_from_append:
  "hexToBigInt_from a (xs @ ys) =
     (case hexToBigInt_from a xs of None \<Rightarrow> None | Some b \<Rightarrow> hexToBigInt_from b ys)"
  by (induction xs arbitrary: a) (simp_all split: option.splits)

lemma hexToBigInt_from_hexDigits:
  "0 \<le> v \<Longrightarrow> v < 16 ^ k \<Longrightarrow> hexToBigInt_from a (hexDigits k v) = Some (a * 16 ^ k + v)"
proof (induction k arbitrary: v)
  case 0
  then show ?case by simp
next
  case (Suc k)
  have "0 \<le> v div 16" using Suc.prems by simp
  moreover have "v div 16 < 16 ^ k" using Suc.prems by simp
  ultimately have ih: "hexToBigInt_from a (hexDigits k (v div 16)) = Some (a * 16 ^ k + v div 16)"
    by (rule Suc.IH)
  have d: "hexValue (hexChar (v mod 16)) = Some (v mod 16)"
    by (rule hexValue_hexChar) simp_all
  have "16 * (a * 16 ^ k + v div 16) + v mod 16 = a * 16 ^ Suc k + v"
    by (simp add: algebra_simps)
  then show ?case
    by (simp add: hexToBigInt_from_append ih d)
qed

lemma hexToBigInt_hexDigits:
  "0 \<le> v \<Longrightarrow> v < 16 ^ k \<Longrightarrow> hexToBigInt (hexDigits k v) = Some v"
  by (simp add: hexToBigInt_def hexToBigInt_from_hexDigits)

lemma hexToBigInt_from_hex:
  "list_all isHexChar w \<Longrightarrow> \<exists>n. hexToBigInt_from a w = Some n"
proof (induction w arbitrary: a)
  case Nil
  then show ?case by simp
next
  case (Cons c w)
  from Cons.prems obtain d where "hexValue c = Some d"
    using isHexChar_hexValue [of c] by auto
  with Cons show ?case by simp
qed

lemma length_chunks [simp]: "length (chunks n w xs) = n"
  by (induction n arbitrary: xs) simp_all

lemma length_keccak256 [simp]: "length (keccak256 m) = 32"
  by (simp add: keccak256_def Let_def)

lemma length_bytesToHex [simp]: "length (bytesToHex bs) = 2 * length bs"
  by (induction bs) (simp_all add: bytesToHex_def)

lemma length_toFunctionSelector [simp]: "length (toFunctionSelector signature) = 10"
  by (simp add: toFunctionSelector_def)

lemma isAddress_regex: "isAddress a \<Longrightarrow> addressRegex a"
  by (auto simp: isAddress_def split: if_splits)

lemma length_toLowerCase [simp]: "length (toLowerCase s) = length s"
  by (simp add: toLowerCase_def)

lemma drop_toLowerCase: "drop n (toLowerCase s) = toLowerCase (drop n s)"
  by (simp add: toLowerCase_def drop_map)

lemma toLowerCase_0x: "take 2 s = ''0x'' \<Longrightarrow> toLowerCase s = ''0x'' @ toLowerCase (drop 2 s)"
proof -
  assume h: "take 2 s = ''0x''"
  have "toLowerCase s = toLowerCase (take 2 s @ drop 2 s)" by simp
  also have "\<dots> = toLowerCase (take 2 s) @ toLowerCase (drop 2 s)"
    unfolding toLowerCase_def map_append ..
  also have "toLowerCase (take 2 s) = ''0x''"
    unfolding h by (simp add: toLowerCase_def toLowerChar_def)
  finally show ?thesis .
qed

lemma padHex_address:
  assumes "addressRegex a"
  shows "padHex (toLowerCase a) = replicate 24 CHR ''0'' @ toLowerCase (drop 2 a)"
    and "list_all isHexChar (padHex (toLowerCase a))"
    and "''0x'' @ drop 24 (padHex (toLowerCase a)) = toLowerCase a"
proof -
  from assms have len: "length a = 42" and pre: "take 2 a = ''0x''"
    and hex: "list_all isHexChar (drop 2 a)"
    by (simp_all add: addressRegex_def)
  show p: "padHex (toLowerCase a) = replicate 24 CHR ''0'' @ toLowerCase (drop 2 a)"
    using len by (simp add: padHex_def drop_toLowerCase)
  have "list_all isHexChar (toLowerCase (drop 2 a))"
    using hex by (simp add: toLowerCase_def list_all_iff isHexChar_toLowerChar)
  moreover have "isHexChar CHR ''0''" by (simp add: isHexChar_def hexValue_def)
  ultimately show "list_all isHexChar (padHex (toLowerCase a))"
    by (simp add: p list_all_iff)
  show "''0x'' @ drop 24 (padHex (toLowerCase a)) = toLowerCase a"
    unfolding p using len by (simp add: toLowerCase_0x [OF pre])
qed

subsection \<open>Decoding what was encoded\<close>

lemma numberToHex_unsigned:
  "numberToHex 32 False v = Inr h \<Longrightarrow> length h = 64 \<and> hexToBigInt h = Some v"
  by (auto simp: numberToHex_def Let_def hexToBigInt_hexDigits split: if_splits)

lemma numberToHex_signed:
  assumes "numberToHex 32 True v = Inr h"
  shows "length h = 64"
    and "\<exists>n. hexToBigInt h = Some n \<and> (if 2 ^ 255 \<le> n then n - 2 ^ 256 else n) = v"
proof -
  from assms have r: "- (2 ^ 255) \<le> v" "v < 2 ^ 255"
    and h: "h = hexDigits 64 (if v < 0 then 2 ^ 256 + v else v)"
    by (auto simp: numberToHex_def Let_def split: if_splits)
  show "length h = 64" by (simp add: h)
  show "\<exists>n. hexToBigInt h = Some n \<and> (if 2 ^ 255 \<le> n then n - 2 ^ 256 else n) = v"
  proof (cases "v < 0")
    case True
    then have "hexToBigInt h = Some (2 ^ 256 + v)"
      using r by (simp add: h hexToBigInt_hexDigits)
    then show ?thesis using True r by simp
  next
    case False
    then have "hexToBigInt h = Some v"
      using r by (simp add: h hexToBigInt_hexDigits)
    then show ?thesis using False r by simp
  qed
qed

lemma encodeParam_roundtrip:
  assumes "encodeParam p = Inr h"
  shows "length h = 64 \<and> decodeParam (abi_type_of p) h = Some (canonical p)"
proof (cases p)
  case (AddressArg a)
  with assms have ok: "isAddress a" and h: "h = padHex (toLowerCase a)"
    by (auto split: if_splits)
  from ok have re: "addressRegex a" by (rule isAddress_regex)
  have len: "length h = 64"
    using re by (simp add: h padHex_address(1) addressRegex_def)
  obtain n where "hexToBigInt h = Some n"
    using hexToBigInt_from_hex [OF padHex_address(2) [OF re]] by (auto simp: h hexToBigInt_def)
  then show ?thesis
    using len padHex_address(3) [OF re] by (simp add: AddressArg h)
next
  case (UIntArg sz v)
  with assms have "numberToHex 32 False v = Inr h"
    by (auto split: if_splits)
  then show ?thesis
    using numberToHex_unsigned by (simp add: UIntArg)
next
  case (IntArg sz v)
  with assms have e: "numberToHex 32 True v = Inr h"
    by (auto simp: Let_def split: if_splits)
  from numberToHex_signed [OF e] show ?thesis
    by (auto simp: IntArg)
qed

lemma encodeAbiParameters_roundtrip:
  "encodeAbiParameters ps = Inr d \<Longrightarrow>
     length d = 64 * length ps \<and> decodeAbiParameters (map abi_type_of ps) d = Some (map canonical ps)"
proof (induction ps arbitrary: d)
  case Nil
  then show ?case by simp
next
  case (Cons p ps)
  from Cons.prems obtain h t where h: "encodeParam p = Inr h"
    and t: "encodeAbiParameters ps = Inr t" and d: "d = h @ t"
    by (auto split: sum.splits)
  from encodeParam_roundtrip [OF h] Cons.IH [OF t] show ?case
    by (simp add: d)
qed

lemma encodeFunctionData_roundtrip:
  assumes "encodeFunctionData signature ps = Inr c"
  shows "length c = 10 + 64 * length ps"
    and "decodeFunctionData signature (map abi_type_of ps) c = Some (map canonical ps)"
proof -
  from assms obtain d where d: "encodeAbiParameters ps = Inr d"
    and c: "c = toFunctionSelector signature @ d"
    by (auto simp: encodeFunctionData_def split: sum.splits)
  from encodeAbiParameters_roundtrip [OF d] show "length c = 10 + 64 * length ps"
    by (simp add: c)
  from encodeAbiParameters_roundtrip [OF d]
  show "decodeFunctionData signature (map abi_type_of ps) c = Some (map canonical ps)"
    by (simp add: c decodeFunctionData_def)
qed

lemma toLowerChar_idem_hex: "isHexChar c \<Longrightarrow> toLowerChar (toLowerChar c) = toLowerChar c"
  by (drule isHexChar_cases, elim disjE) (simp_all add: toLowerChar_def)

lemma toLowerCase_idem_hex: "list_all isHexChar s \<Longrightarrow> toLowerCase (toLowerCase s) = toLowerCase s"
  by (induction s) (simp_all add: toLowerCase_def toLowerChar_idem_hex)

lemma checksumAddress_toLowerCase:
  assumes "addressRegex a"
  shows "checksumAddress (toLowerCase a) = checksumAddress a"
proof -
  from assms have "list_all isHexChar (drop 2 a)" by (simp add: addressRegex_def)
  then have "toLowerCase (drop 2 (toLowerCase a)) = toLowerCase (drop 2 a)"
    by (simp add: drop_toLowerCase toLowerCase_idem_hex)
  then show ?thesis by (simp add: checksumAddress_def)
qed

lemma isAddress_canonical:
  assumes "isAddress a"
  shows "toLowerCase a = a \<or> checksumAddress (toLowerCase a) = a"
proof (cases "toLowerCase a = a")
  case True
  then show ?thesis by simp
next
  case False
  with assms have "checksumAddress a = a"
    by (auto simp: isAddress_def split: if_splits)
  then show ?thesis
    using checksumAddress_toLowerCase [OF isAddress_regex [OF assms]] by simp
qed

lemma encodeParam_address_ok:
  "isAddress a \<Longrightarrow> encodeParam (AddressArg a) = Inr (replicate 24 CHR ''0'' @ toLowerCase (drop 2 a))"
  by (simp add: padHex_address(1) [OF isAddress_regex])

lemma encodeParam_uint256_ok:
  "0 \<le> v \<Longrightarrow> v < 2 ^ 256 \<Longrightarrow> encodeParam (UIntArg 256 v) = Inr (hexDigits 64 v)"
  by (simp add: numberToHex_def)

lemma encodeParam_int128_ok:
  "- (2 ^ 127) \<le> v \<Longrightarrow> v < 2 ^ 127 \<Longrightarrow>
   encodeParam (IntArg 128 v) = Inr (hexDigits 64 (if v < 0 then 2 ^ 256 + v else v))"
  by (simp add: numberToHex_def Let_def)


subsection \<open>Selectors and the pool address of the driver\<close>

text \<open>
  The two selectors, computed by Keccak-256 from the signatures, and the check that the
  checksummed Curve pool address of \<^verbatim>\<open>index.ts\<close> is accepted as an address.
\<close>

lemma approve_selector: "toFunctionSelector ''approve(address,uint256)'' = ''0x095ea7b3''"
  by code_simp

lemma exchange_selector:
  "toFunctionSelector ''exchange(int128,int128,uint256,uint256,address)'' = ''0xddc1f59d''"
  by code_simp

lemma curve_pool_isAddress: "isAddress ''0x02950460E2b9529D0E00284A5fA2d7bDF3fA4d72''"
  by code_simp

subsection \<open>The approve call\<close>

lemma lowercase_isAddress: "isAddress ''0x02950460e2b9529d0e00284a5fa2d7bdf3fa4d72''"
  by (simp add: isAddress_def addressRegex_def isHexChar_def toLowerCase_def toLowerChar_def)


lemma generateApproveCallData_encodes:
  assumes "isAddress spender" and "0 \<le> amount" and "amount < 2 ^ 256"
  shows "generateApproveCallData spender amount
           = Inr (''0x095ea7b3'' @ (replicate 24 CHR ''0'' @ toLowerCase (drop 2 spender))
                    @ hexDigits 64 amount)"
  using assms
  by (simp add: generateApproveCallData_def encodeFunctionData_def approve_selector
      encodeParam_address_ok encodeParam_uint256_ok del: encodeParam.simps)

text \<open>
  Claim C9. For every spender that is an address and every amount in the range of
  \<^verbatim>\<open>uint256\<close>, \<^verbatim>\<open>generateApproveCallData\<close> returns a call of exactly 68 bytes: the
  selector \<^verbatim>\<open>0x095ea7b3\<close> of \<^verbatim>\<open>approve(address,uint256)\<close>, then two words of 32
  bytes (64 hex digits) each: the 20 bytes of the spender after 12 zero bytes, and the
  amount as a big-endian number. Length and selector are the same for all inputs.
\<close>

theorem generateApproveCallData_layout:
  assumes "isAddress spender" and "0 \<le> amount" and "amount < 2 ^ 256"
  shows "\<exists>w1 w2. generateApproveCallData spender amount = Inr (''0x095ea7b3'' @ w1 @ w2)
           \<and> size_hex (''0x095ea7b3'' @ w1 @ w2) = 68
           \<and> length w1 = 64 \<and> length w2 = 64
           \<and> w1 = replicate 24 CHR ''0'' @ toLowerCase (drop 2 spender)
           \<and> hexToBigInt w2 = Some amount"
proof -
  let ?w1 = "replicate 24 CHR ''0'' @ toLowerCase (drop 2 spender)"
  let ?w2 = "hexDigits 64 amount"
  have len: "length spender = 42"
    using isAddress_regex [OF assms(1)] by (simp add: addressRegex_def)
  have "generateApproveCallData spender amount = Inr (''0x095ea7b3'' @ ?w1 @ ?w2)"
    using assms by (rule generateApproveCallData_encodes)
  moreover have "size_hex (''0x095ea7b3'' @ ?w1 @ ?w2) = 68"
    using len by (simp add: size_hex_def)
  moreover have "length ?w1 = 64" using len by simp
  moreover have "hexToBigInt ?w2 = Some amount"
    using assms by (simp add: hexToBigInt_hexDigits)
  ultimately show ?thesis by (intro exI [of _ ?w1] exI [of _ ?w2]) simp
qed

lemma zeros24: "replicate 24 CHR ''0'' = ''000000000000000000000000''"
  by code_simp

lemma hexDigits_100000000:
  "hexDigits 64 100000000 = ''0000000000000000000000000000000000000000000000000000000005f5e100''"
  by code_simp

lemma curve_pool_lower:
  "toLowerCase ''02950460E2b9529D0E00284A5fA2d7bDF3fA4d72'' = ''02950460e2b9529d0e00284a5fa2d7bdf3fa4d72''"
  by (simp add: toLowerCase_def toLowerChar_def)

theorem generateApproveCallData_layout_witness:
  "isAddress ''0x02950460E2b9529D0E00284A5fA2d7bDF3fA4d72'' \<and> (0::int) \<le> 100000000
   \<and> (100000000::int) < 2 ^ 256
   \<and> generateApproveCallData ''0x02950460E2b9529D0E00284A5fA2d7bDF3fA4d72'' 100000000
       = Inr ''0x095ea7b300000000000000000000000002950460e2b9529d0e00284a5fa2d7bdf3fa4d720000000000000000000000000000000000000000000000000000000005f5e100''"
proof -
  from generateApproveCallData_layout [OF curve_pool_isAddress, of 100000000]
  obtain w1 w2 where
    g: "generateApproveCallData ''0x02950460E2b9529D0E00284A5fA2d7bDF3fA4d72'' 100000000
          = Inr (''0x095ea7b3'' @ w1 @ w2)"
    and w1: "w1 = replicate 24 CHR ''0'' @ toLowerCase (drop 2 ''0x02950460E2b9529D0E00284A5fA2d7bDF3fA4d72'')"
    and l2: "length w2 = 64"
    and w2: "hexToBigInt w2 = Some 100000000"
    by auto
  have "generateApproveCallData ''0x02950460E2b9529D0E00284A5fA2d7bDF3fA4d72'' 100000000
       = Inr ''0x095ea7b300000000000000000000000002950460e2b9529d0e00284a5fa2d7bdf3fa4d720000000000000000000000000000000000000000000000000000000005f5e100''"
    using curve_pool_isAddress
    by (simp add: generateApproveCallData_def encodeFunctionData_def approve_selector
        encodeParam_address_ok encodeParam_uint256_ok curve_pool_lower zeros24
        hexDigits_100000000 del: encodeParam.simps)
  with g curve_pool_isAddress show ?thesis by simp
qed

text \<open>
  Claim C5. For a fixed spender address \<open>spenderX\<close>, the calls generated for the
  amounts 100 and 250 are two different values, and decoding each gives back the spender
  and its own amount. The decoded spender is \<open>spenderX\<close> as an address: its lower-case
  form, which is \<open>spenderX\<close> itself or has \<open>spenderX\<close> as its checksummed rendering.
\<close>

theorem generateApproveCallData_roundtrip:
  assumes "isAddress spenderX"
  shows "\<exists>c1 c2. generateApproveCallData spenderX 100 = Inr c1
           \<and> generateApproveCallData spenderX 250 = Inr c2
           \<and> c1 \<noteq> c2
           \<and> decodeFunctionData ''approve(address,uint256)'' [AddressT, UIntT 256] c1
               = Some [AddressArg (toLowerCase spenderX), UIntArg 256 100]
           \<and> decodeFunctionData ''approve(address,uint256)'' [AddressT, UIntT 256] c2
               = Some [AddressArg (toLowerCase spenderX), UIntArg 256 250]
           \<and> (toLowerCase spenderX = spenderX \<or> checksumAddress (toLowerCase spenderX) = spenderX)"
proof -
  from generateApproveCallData_encodes [OF assms, of 100] obtain c1
    where c1: "generateApproveCallData spenderX 100 = Inr c1" by auto
  from generateApproveCallData_encodes [OF assms, of 250] obtain c2
    where c2: "generateApproveCallData spenderX 250 = Inr c2" by auto
  have d1: "decodeFunctionData ''approve(address,uint256)'' [AddressT, UIntT 256] c1
              = Some [AddressArg (toLowerCase spenderX), UIntArg 256 100]"
    using encodeFunctionData_roundtrip(2) [OF c1 [unfolded generateApproveCallData_def]] by simp
  have d2: "decodeFunctionData ''approve(address,uint256)'' [AddressT, UIntT 256] c2
              = Some [AddressArg (toLowerCase spenderX), UIntArg 256 250]"
    using encodeFunctionData_roundtrip(2) [OF c2 [unfolded generateApproveCallData_def]] by simp
  from d1 d2 have "c1 \<noteq> c2" by auto
  with c1 c2 d1 d2 isAddress_canonical [OF assms] show ?thesis by blast
qed

lemma hexDigits_small:
  "hexDigits 64 100 = ''0000000000000000000000000000000000000000000000000000000000000064''"
  "hexDigits 64 250 = ''00000000000000000000000000000000000000000000000000000000000000fa''"
  by code_simp+

lemma approve_values:
  "generateApproveCallData ''0x02950460E2b9529D0E00284A5fA2d7bDF3fA4d72'' 100 = Inr ''0x095ea7b300000000000000000000000002950460e2b9529d0e00284a5fa2d7bdf3fa4d720000000000000000000000000000000000000000000000000000000000000064''"
  "generateApproveCallData ''0x02950460E2b9529D0E00284A5fA2d7bDF3fA4d72'' 250 = Inr ''0x095ea7b300000000000000000000000002950460e2b9529d0e00284a5fa2d7bdf3fa4d7200000000000000000000000000000000000000000000000000000000000000fa''"
  by (simp_all add: generateApproveCallData_encodes [OF curve_pool_isAddress]
      curve_pool_lower zeros24 hexDigits_small del: hexDigits.simps)

lemma curve_pool_lower_0x:
  "toLowerCase ''0x02950460E2b9529D0E00284A5fA2d7bDF3fA4d72'' = ''0x02950460e2b9529d0e00284a5fa2d7bdf3fa4d72''"
  by (simp add: toLowerCase_def toLowerChar_def)

theorem generateApproveCallData_roundtrip_witness:
  "isAddress ''0x02950460E2b9529D0E00284A5fA2d7bDF3fA4d72''
   \<and> generateApproveCallData ''0x02950460E2b9529D0E00284A5fA2d7bDF3fA4d72'' 100 = Inr ''0x095ea7b300000000000000000000000002950460e2b9529d0e00284a5fa2d7bdf3fa4d720000000000000000000000000000000000000000000000000000000000000064''
   \<and> generateApproveCallData ''0x02950460E2b9529D0E00284A5fA2d7bDF3fA4d72'' 250 = Inr ''0x095ea7b300000000000000000000000002950460e2b9529d0e00284a5fa2d7bdf3fa4d7200000000000000000000000000000000000000000000000000000000000000fa''
   \<and> ''0x095ea7b300000000000000000000000002950460e2b9529d0e00284a5fa2d7bdf3fa4d720000000000000000000000000000000000000000000000000000000000000064'' \<noteq> ''0x095ea7b300000000000000000000000002950460e2b9529d0e00284a5fa2d7bdf3fa4d7200000000000000000000000000000000000000000000000000000000000000fa''
   \<and> decodeFunctionData ''approve(address,uint256)'' [AddressT, UIntT 256] ''0x095ea7b300000000000000000000000002950460e2b9529d0e00284a5fa2d7bdf3fa4d720000000000000000000000000000000000000000000000000000000000000064''
       = Some [AddressArg ''0x02950460e2b9529d0e00284a5fa2d7bdf3fa4d72'', UIntArg 256 100]
   \<and> decodeFunctionData ''approve(address,uint256)'' [AddressT, UIntT 256] ''0x095ea7b300000000000000000000000002950460e2b9529d0e00284a5fa2d7bdf3fa4d7200000000000000000000000000000000000000000000000000000000000000fa''
       = Some [AddressArg ''0x02950460e2b9529d0e00284a5fa2d7bdf3fa4d72'', UIntArg 256 250]
   \<and> checksumAddress ''0x02950460e2b9529d0e00284a5fa2d7bdf3fa4d72'' = ''0x02950460E2b9529D0E00284A5fA2d7bDF3fA4d72''"
proof -
  have ne: "toLowerCase ''0x02950460E2b9529D0E00284A5fA2d7bDF3fA4d72'' \<noteq> ''0x02950460E2b9529D0E00284A5fA2d7bDF3fA4d72''"
    by (simp add: curve_pool_lower_0x)
  from generateApproveCallData_roundtrip [OF curve_pool_isAddress] ne
  show ?thesis
    unfolding approve_values curve_pool_lower_0x
    using curve_pool_isAddress by (simp del: decodeAbiParameters.simps)
qed

subsection \<open>The exchange call\<close>

lemma generateExchangeCallData_trace:
  "snd (generateExchangeCallData readContract trace pool i j dx receiver)
     = trace @ [get_dy_query pool i j dx]"
  by (simp add: generateExchangeCallData_def getMinDy_def Let_def split: sum.splits)

lemma generateExchangeCallData_result:
  "fst (generateExchangeCallData readContract trace pool i j dx receiver)
     = (case readContract (length trace) (get_dy_query pool i j dx) of
          Inl e \<Rightarrow> Inl e
        | Inr dy \<Rightarrow>
            encodeFunctionData ''exchange(int128,int128,uint256,uint256,address)''
              [IntArg 128 i, IntArg 128 j, UIntArg 256 dx,
               UIntArg 256 (calculateAdjustedMinOutput (uint dy) None), AddressArg receiver])"
  by (simp add: generateExchangeCallData_def getMinDy_def Let_def split: sum.splits)

lemma encodeFunctionData_5:
  assumes "encodeFunctionData signature [p1, p2, p3, p4, p5] = Inr c"
  shows "\<exists>h1 h2 h3 h4 h5. encodeParam p1 = Inr h1 \<and> encodeParam p2 = Inr h2
           \<and> encodeParam p3 = Inr h3 \<and> encodeParam p4 = Inr h4 \<and> encodeParam p5 = Inr h5
           \<and> c = toFunctionSelector signature @ h1 @ h2 @ h3 @ h4 @ h5"
  using assms by (auto simp: encodeFunctionData_def split: sum.splits)



lemma exchange_encodes:
  assumes "- (2 ^ 127) \<le> i" "i < 2 ^ 127" "- (2 ^ 127) \<le> j" "j < 2 ^ 127"
    and "0 \<le> dx" "dx < 2 ^ 256" "0 \<le> m" "m < 2 ^ 256" "isAddress receiver"
  shows "encodeFunctionData ''exchange(int128,int128,uint256,uint256,address)''
           [IntArg 128 i, IntArg 128 j, UIntArg 256 dx, UIntArg 256 m, AddressArg receiver]
         = Inr (''0xddc1f59d'' @ hexDigits 64 (if i < 0 then 2 ^ 256 + i else i)
                  @ hexDigits 64 (if j < 0 then 2 ^ 256 + j else j)
                  @ hexDigits 64 dx @ hexDigits 64 m
                  @ replicate 24 CHR ''0'' @ toLowerCase (drop 2 receiver))"
  using assms
  by (simp add: encodeFunctionData_def exchange_selector encodeParam_address_ok
      encodeParam_uint256_ok encodeParam_int128_ok del: encodeParam.simps hexDigits.simps)

text \<open>
  Claim C3. For a pool address, \<open>i = 1\<close>, \<open>j = 0\<close>, \<open>dx = 100_000_000\<close> and a receiver
  address \<open>R\<close>, if the \<^verbatim>\<open>get_dy\<close> read returns \<open>99_000_000\<close> then
  \<^verbatim>\<open>generateExchangeCallData\<close> returns a call of
  \<^verbatim>\<open>exchange(int128,int128,uint256,uint256,address)\<close> that decodes to
  \<open>(1, 0, 100_000_000, 98_970_300, R)\<close>, where \<open>98_970_300 = floor (99_000_000 * 9997 / 10000)\<close>.
\<close>

theorem generateExchangeCallData_example:
  assumes "isAddress R"
    and "readContract (length trace) (get_dy_query pool 1 0 100000000) = Inr 99000000"
  shows "\<exists>call. fst (generateExchangeCallData readContract trace pool 1 0 100000000 R) = Inr call
           \<and> take 10 call = ''0xddc1f59d''
           \<and> decodeFunctionData ''exchange(int128,int128,uint256,uint256,address)''
                [IntT 128, IntT 128, UIntT 256, UIntT 256, AddressT] call
               = Some [IntArg 128 1, IntArg 128 0, UIntArg 256 100000000, UIntArg 256 98970300,
                       AddressArg (toLowerCase R)]
           \<and> (98970300 :: int) = \<lfloor>(99000000 * 9997 :: real) / 10000\<rfloor>
           \<and> (toLowerCase R = R \<or> checksumAddress (toLowerCase R) = R)"
proof -
  have adj: "calculateAdjustedMinOutput 99000000 None = 98970300"
    by (simp add: calculateAdjustedMinOutput_def bigint_div_def)
  let ?args = "[IntArg 128 1, IntArg 128 0, UIntArg 256 100000000, UIntArg 256 98970300,
                AddressArg R]"
  let ?sig = "''exchange(int128,int128,uint256,uint256,address)''"
  have res: "fst (generateExchangeCallData readContract trace pool 1 0 100000000 R)
               = encodeFunctionData ?sig ?args"
    by (simp add: generateExchangeCallData_result assms(2) adj del: encodeParam.simps)
  have "\<exists>d. encodeFunctionData ?sig ?args = Inr (''0xddc1f59d'' @ d)"
    by (subst exchange_encodes [OF _ _ _ _ _ _ _ _ assms(1)]) simp_all
  then obtain d where enc: "encodeFunctionData ?sig ?args = Inr (''0xddc1f59d'' @ d)" ..
  have dec: "decodeFunctionData ?sig (map abi_type_of ?args) (''0xddc1f59d'' @ d)
               = Some (map canonical ?args)"
    using enc by (rule encodeFunctionData_roundtrip(2))
  have fl: "(98970300 :: int) = \<lfloor>(99000000 * 9997 :: real) / 10000\<rfloor>"
  proof -
    have "\<lfloor>real_of_int (99000000 * 9997) / real_of_int 10000\<rfloor> = (99000000 * 9997) div 10000"
      by (rule floor_divide_of_int_eq)
    then show ?thesis by simp
  qed
  show ?thesis
  proof (intro exI [of _ "''0xddc1f59d'' @ d"] conjI)
    show "fst (generateExchangeCallData readContract trace pool 1 0 100000000 R)
            = Inr (''0xddc1f59d'' @ d)"
      by (simp only: res enc)
    show "take 10 (''0xddc1f59d'' @ d) = ''0xddc1f59d''" by simp
    show "decodeFunctionData ?sig [IntT 128, IntT 128, UIntT 256, UIntT 256, AddressT]
            (''0xddc1f59d'' @ d)
          = Some [IntArg 128 1, IntArg 128 0, UIntArg 256 100000000, UIntArg 256 98970300,
                  AddressArg (toLowerCase R)]"
      using dec by (simp del: decodeAbiParameters.simps)
    show "(98970300 :: int) = \<lfloor>(99000000 * 9997 :: real) / 10000\<rfloor>" by (rule fl)
    show "toLowerCase R = R \<or> checksumAddress (toLowerCase R) = R"
      using assms(1) by (rule isAddress_canonical)
  qed
qed

lemma hexDigits_values:
  "hexDigits 64 1 = ''0000000000000000000000000000000000000000000000000000000000000001''"
  "hexDigits 64 0 = ''0000000000000000000000000000000000000000000000000000000000000000''"
  "hexDigits 64 98970300 = ''0000000000000000000000000000000000000000000000000000000005e62abc''"
  "hexDigits 64 50000000 = ''0000000000000000000000000000000000000000000000000000000002faf080''"
  "hexDigits 64 48985300 = ''0000000000000000000000000000000000000000000000000000000002eb74d4''"
  by code_simp+

lemma user_lower:
  "toLowerCase ''02950460e2b9529d0e00284a5fa2d7bdf3fa4d72'' = ''02950460e2b9529d0e00284a5fa2d7bdf3fa4d72''"
  by (simp add: toLowerCase_def toLowerChar_def)

lemma exchange_example_value:
  "encodeFunctionData ''exchange(int128,int128,uint256,uint256,address)''
     [IntArg 128 1, IntArg 128 0, UIntArg 256 100000000, UIntArg 256 98970300,
      AddressArg ''0x02950460e2b9529d0e00284a5fa2d7bdf3fa4d72'']
   = Inr ''0xddc1f59d000000000000000000000000000000000000000000000000000000000000000100000000000000000000000000000000000000000000000000000000000000000000000000000000000000000000000000000000000000000000000005f5e1000000000000000000000000000000000000000000000000000000000005e62abc00000000000000000000000002950460e2b9529d0e00284a5fa2d7bdf3fa4d72''"
  by (subst exchange_encodes [OF _ _ _ _ _ _ _ _ lowercase_isAddress])
     (simp_all add: hexDigits_values hexDigits_100000000 zeros24 user_lower del: hexDigits.simps)

theorem generateExchangeCallData_example_witness:
  "isAddress ''0x02950460e2b9529d0e00284a5fa2d7bdf3fa4d72''
   \<and> (\<lambda>n q. Inr 99000000) (length ([] :: query list))
         (get_dy_query ''0x02950460E2b9529D0E00284A5fA2d7bDF3fA4d72'' 1 0 100000000)
       = (Inr 99000000 :: error + 256 word)
   \<and> fst (generateExchangeCallData (\<lambda>n q. Inr 99000000) []
        ''0x02950460E2b9529D0E00284A5fA2d7bDF3fA4d72'' 1 0 100000000
        ''0x02950460e2b9529d0e00284a5fa2d7bdf3fa4d72'')
     = Inr ''0xddc1f59d000000000000000000000000000000000000000000000000000000000000000100000000000000000000000000000000000000000000000000000000000000000000000000000000000000000000000000000000000000000000000005f5e1000000000000000000000000000000000000000000000000000000000005e62abc00000000000000000000000002950460e2b9529d0e00284a5fa2d7bdf3fa4d72''
   \<and> decodeFunctionData ''exchange(int128,int128,uint256,uint256,address)''
        [IntT 128, IntT 128, UIntT 256, UIntT 256, AddressT]
        ''0xddc1f59d000000000000000000000000000000000000000000000000000000000000000100000000000000000000000000000000000000000000000000000000000000000000000000000000000000000000000000000000000000000000000005f5e1000000000000000000000000000000000000000000000000000000000005e62abc00000000000000000000000002950460e2b9529d0e00284a5fa2d7bdf3fa4d72''
     = Some [IntArg 128 1, IntArg 128 0, UIntArg 256 100000000, UIntArg 256 98970300,
             AddressArg ''0x02950460e2b9529d0e00284a5fa2d7bdf3fa4d72'']"
proof -
  have adj: "calculateAdjustedMinOutput 99000000 None = 98970300"
    by (simp add: calculateAdjustedMinOutput_def bigint_div_def)
  have v: "fst (generateExchangeCallData (\<lambda>n q. Inr 99000000) []
        ''0x02950460E2b9529D0E00284A5fA2d7bDF3fA4d72'' 1 0 100000000
        ''0x02950460e2b9529d0e00284a5fa2d7bdf3fa4d72'')
     = Inr ''0xddc1f59d000000000000000000000000000000000000000000000000000000000000000100000000000000000000000000000000000000000000000000000000000000000000000000000000000000000000000000000000000000000000000005f5e1000000000000000000000000000000000000000000000000000000000005e62abc00000000000000000000000002950460e2b9529d0e00284a5fa2d7bdf3fa4d72''"
    by (simp add: generateExchangeCallData_result adj exchange_example_value
        del: encodeParam.simps)
  have l: "toLowerCase ''0x02950460e2b9529d0e00284a5fa2d7bdf3fa4d72''
             = ''0x02950460e2b9529d0e00284a5fa2d7bdf3fa4d72''"
    by (simp add: toLowerCase_def toLowerChar_def)
  from generateExchangeCallData_example
    [OF lowercase_isAddress, of "\<lambda>n q. Inr 99000000" "[]"
        "''0x02950460E2b9529D0E00284A5fA2d7bDF3fA4d72''"]
  show ?thesis
    unfolding v l using lowercase_isAddress by (simp del: decodeAbiParameters.simps)
qed

text \<open>
  Claim C7. Every invocation of \<^verbatim>\<open>generateExchangeCallData\<close> issues its own read
  for its own \<open>dx\<close>: after a second invocation with \<open>dx2\<close> the trace holds the read for
  \<open>dx1\<close> and then the read for \<open>dx2\<close> (two distinct queries when \<open>dx1 \<noteq> dx2\<close>), and the
  second result is built from the answer to the second read alone.
\<close>

theorem generateExchangeCallData_fresh_query:
  "snd (generateExchangeCallData readContract
          (snd (generateExchangeCallData readContract trace pool i j dx1 receiver))
          pool i j dx2 receiver)
     = trace @ [get_dy_query pool i j dx1, get_dy_query pool i j dx2]
   \<and> fst (generateExchangeCallData readContract
          (snd (generateExchangeCallData readContract trace pool i j dx1 receiver))
          pool i j dx2 receiver)
     = (case readContract (Suc (length trace)) (get_dy_query pool i j dx2) of
          Inl e \<Rightarrow> Inl e
        | Inr dy \<Rightarrow>
            encodeFunctionData ''exchange(int128,int128,uint256,uint256,address)''
              [IntArg 128 i, IntArg 128 j, UIntArg 256 dx2,
               UIntArg 256 (calculateAdjustedMinOutput (uint dy) None), AddressArg receiver])
   \<and> (dx1 \<noteq> dx2 \<longrightarrow> get_dy_query pool i j dx1 \<noteq> get_dy_query pool i j dx2)"
  by (simp add: generateExchangeCallData_trace generateExchangeCallData_result
      del: encodeParam.simps)

lemma exchange_second_value:
  "encodeFunctionData ''exchange(int128,int128,uint256,uint256,address)''
     [IntArg 128 1, IntArg 128 0, UIntArg 256 50000000, UIntArg 256 48985300,
      AddressArg ''0x02950460e2b9529d0e00284a5fa2d7bdf3fa4d72'']
   = Inr ''0xddc1f59d000000000000000000000000000000000000000000000000000000000000000100000000000000000000000000000000000000000000000000000000000000000000000000000000000000000000000000000000000000000000000002faf0800000000000000000000000000000000000000000000000000000000002eb74d400000000000000000000000002950460e2b9529d0e00284a5fa2d7bdf3fa4d72''"
  by (subst exchange_encodes [OF _ _ _ _ _ _ _ _ lowercase_isAddress])
     (simp_all add: hexDigits_values zeros24 user_lower del: hexDigits.simps)

theorem generateExchangeCallData_fresh_query_witness:
  "(100000000 :: int) \<noteq> 50000000
   \<and> get_dy_query ''0x02950460E2b9529D0E00284A5fA2d7bDF3fA4d72'' 1 0 100000000
       \<noteq> get_dy_query ''0x02950460E2b9529D0E00284A5fA2d7bDF3fA4d72'' 1 0 50000000
   \<and> snd (generateExchangeCallData stub_quoter
          (snd (generateExchangeCallData stub_quoter [] ''0x02950460E2b9529D0E00284A5fA2d7bDF3fA4d72''
                  1 0 100000000 ''0x02950460e2b9529d0e00284a5fa2d7bdf3fa4d72''))
          ''0x02950460E2b9529D0E00284A5fA2d7bDF3fA4d72'' 1 0 50000000
          ''0x02950460e2b9529d0e00284a5fa2d7bdf3fa4d72'')
     = [get_dy_query ''0x02950460E2b9529D0E00284A5fA2d7bDF3fA4d72'' 1 0 100000000,
        get_dy_query ''0x02950460E2b9529D0E00284A5fA2d7bDF3fA4d72'' 1 0 50000000]
   \<and> fst (generateExchangeCallData stub_quoter
          (snd (generateExchangeCallData stub_quoter [] ''0x02950460E2b9529D0E00284A5fA2d7bDF3fA4d72''
                  1 0 100000000 ''0x02950460e2b9529d0e00284a5fa2d7bdf3fa4d72''))
          ''0x02950460E2b9529D0E00284A5fA2d7bDF3fA4d72'' 1 0 50000000
          ''0x02950460e2b9529d0e00284a5fa2d7bdf3fa4d72'')
     = Inr ''0xddc1f59d000000000000000000000000000000000000000000000000000000000000000100000000000000000000000000000000000000000000000000000000000000000000000000000000000000000000000000000000000000000000000002faf0800000000000000000000000000000000000000000000000000000000002eb74d400000000000000000000000002950460e2b9529d0e00284a5fa2d7bdf3fa4d72''"
proof -
  have adj: "calculateAdjustedMinOutput 49000000 None = 48985300"
    by (simp add: calculateAdjustedMinOutput_def bigint_div_def)
  have q: "stub_quoter (Suc (length ([] :: query list)))
             (get_dy_query ''0x02950460E2b9529D0E00284A5fA2d7bDF3fA4d72'' 1 0 50000000)
           = Inr 49000000"
    by (simp add: stub_quoter_def)
  from generateExchangeCallData_fresh_query
    [of stub_quoter "[]" "''0x02950460E2b9529D0E00284A5fA2d7bDF3fA4d72''" 1 0 100000000
        "''0x02950460e2b9529d0e00284a5fa2d7bdf3fa4d72''" 50000000]
  show ?thesis
    unfolding q by (simp add: adj exchange_second_value del: encodeParam.simps)
qed

text \<open>
  Claim C10. In the call returned by \<^verbatim>\<open>generateExchangeCallData\<close> the fields \<open>i\<close>,
  \<open>j\<close>, \<open>_dx\<close> and \<open>_receiver\<close> are the arguments passed in, whatever the chain
  answers: two successful runs on the same arguments against any two chains return
  calls that agree everywhere outside the word of \<open>_min_dy\<close> (hex digits 202 to 265), and
  \<open>_min_dy\<close> is the adjusted answer of the read.
\<close>

theorem generateExchangeCallData_frame:
  assumes "generateExchangeCallData rc1 trace1 pool i j dx receiver = (Inr c1, trace1')"
    and "generateExchangeCallData rc2 trace2 pool i j dx receiver = (Inr c2, trace2')"
  shows "\<exists>dy1 dy2.
           rc1 (length trace1) (get_dy_query pool i j dx) = Inr dy1
         \<and> rc2 (length trace2) (get_dy_query pool i j dx) = Inr dy2
         \<and> decodeFunctionData ''exchange(int128,int128,uint256,uint256,address)''
              [IntT 128, IntT 128, UIntT 256, UIntT 256, AddressT] c1
             = Some [IntArg 128 i, IntArg 128 j, UIntArg 256 dx,
                     UIntArg 256 (calculateAdjustedMinOutput (uint dy1) None),
                     AddressArg (toLowerCase receiver)]
         \<and> decodeFunctionData ''exchange(int128,int128,uint256,uint256,address)''
              [IntT 128, IntT 128, UIntT 256, UIntT 256, AddressT] c2
             = Some [IntArg 128 i, IntArg 128 j, UIntArg 256 dx,
                     UIntArg 256 (calculateAdjustedMinOutput (uint dy2) None),
                     AddressArg (toLowerCase receiver)]
         \<and> take 202 c1 = take 202 c2 \<and> drop 266 c1 = drop 266 c2"
proof -
  let ?sig = "''exchange(int128,int128,uint256,uint256,address)''"
  let ?args = "\<lambda>dy. [IntArg 128 i, IntArg 128 j, UIntArg 256 dx,
                     UIntArg 256 (calculateAdjustedMinOutput (uint dy) None), AddressArg receiver]"
  have r1: "fst (generateExchangeCallData rc1 trace1 pool i j dx receiver) = Inr c1"
    and r2: "fst (generateExchangeCallData rc2 trace2 pool i j dx receiver) = Inr c2"
    by (simp_all add: assms)
  from r1 obtain dy1 where q1: "rc1 (length trace1) (get_dy_query pool i j dx) = Inr dy1"
    and e1: "encodeFunctionData ?sig (?args dy1) = Inr c1"
    unfolding generateExchangeCallData_result by (auto split: sum.splits)
  from r2 obtain dy2 where q2: "rc2 (length trace2) (get_dy_query pool i j dx) = Inr dy2"
    and e2: "encodeFunctionData ?sig (?args dy2) = Inr c2"
    unfolding generateExchangeCallData_result by (auto split: sum.splits)
  from encodeFunctionData_5 [OF e1] obtain h1 h2 h3 h4 h5 where
    p: "encodeParam (IntArg 128 i) = Inr h1" "encodeParam (IntArg 128 j) = Inr h2"
       "encodeParam (UIntArg 256 dx) = Inr h3" "encodeParam (AddressArg receiver) = Inr h5"
    and c1: "c1 = toFunctionSelector ?sig @ h1 @ h2 @ h3 @ h4 @ h5"
    and p4: "encodeParam (UIntArg 256 (calculateAdjustedMinOutput (uint dy1) None)) = Inr h4"
    by blast
  from encodeFunctionData_5 [OF e2] p obtain h4' where
    c2: "c2 = toFunctionSelector ?sig @ h1 @ h2 @ h3 @ h4' @ h5"
    and p4': "encodeParam (UIntArg 256 (calculateAdjustedMinOutput (uint dy2) None)) = Inr h4'"
    by auto
  have len: "length h1 = 64" "length h2 = 64" "length h3 = 64" "length h4 = 64" "length h4' = 64"
    using encodeParam_roundtrip p p4 p4' by blast+
  have fr: "take 202 c1 = take 202 c2 \<and> drop 266 c1 = drop 266 c2"
    by (simp add: c1 c2 len)
  have d1: "decodeFunctionData ?sig (map abi_type_of (?args dy1)) c1 = Some (map canonical (?args dy1))"
    using e1 by (rule encodeFunctionData_roundtrip(2))
  have d2: "decodeFunctionData ?sig (map abi_type_of (?args dy2)) c2 = Some (map canonical (?args dy2))"
    using e2 by (rule encodeFunctionData_roundtrip(2))
  from q1 q2 d1 d2 fr show ?thesis
    by (intro exI [of _ dy1] exI [of _ dy2]) (simp del: decodeAbiParameters.simps)
qed

lemma exchange_other_value:
  "encodeFunctionData ''exchange(int128,int128,uint256,uint256,address)''
     [IntArg 128 1, IntArg 128 0, UIntArg 256 100000000, UIntArg 256 48985300,
      AddressArg ''0x02950460e2b9529d0e00284a5fa2d7bdf3fa4d72'']
   = Inr ''0xddc1f59d000000000000000000000000000000000000000000000000000000000000000100000000000000000000000000000000000000000000000000000000000000000000000000000000000000000000000000000000000000000000000005f5e1000000000000000000000000000000000000000000000000000000000002eb74d400000000000000000000000002950460e2b9529d0e00284a5fa2d7bdf3fa4d72''"
  by (subst exchange_encodes [OF _ _ _ _ _ _ _ _ lowercase_isAddress])
     (simp_all add: hexDigits_values hexDigits_100000000 zeros24 user_lower del: hexDigits.simps)

lemma adjusted_values:
  "calculateAdjustedMinOutput 99000000 None = 98970300"
  "calculateAdjustedMinOutput 49000000 None = 48985300"
  by (simp_all add: calculateAdjustedMinOutput_def bigint_div_def)

lemma exchange_run_1:
  "generateExchangeCallData (\<lambda>n q. Inr 99000000) [] ''0x02950460E2b9529D0E00284A5fA2d7bDF3fA4d72'' 1 0 100000000 ''0x02950460e2b9529d0e00284a5fa2d7bdf3fa4d72''
     = (Inr ''0xddc1f59d000000000000000000000000000000000000000000000000000000000000000100000000000000000000000000000000000000000000000000000000000000000000000000000000000000000000000000000000000000000000000005f5e1000000000000000000000000000000000000000000000000000000000005e62abc00000000000000000000000002950460e2b9529d0e00284a5fa2d7bdf3fa4d72'', [get_dy_query ''0x02950460E2b9529D0E00284A5fA2d7bDF3fA4d72'' 1 0 100000000])"
  by (rule prod_eqI)
     (simp_all add: generateExchangeCallData_result generateExchangeCallData_trace
        adjusted_values exchange_example_value del: encodeParam.simps)

lemma exchange_run_2:
  "generateExchangeCallData (\<lambda>n q. Inr 49000000) [] ''0x02950460E2b9529D0E00284A5fA2d7bDF3fA4d72'' 1 0 100000000 ''0x02950460e2b9529d0e00284a5fa2d7bdf3fa4d72''
     = (Inr ''0xddc1f59d000000000000000000000000000000000000000000000000000000000000000100000000000000000000000000000000000000000000000000000000000000000000000000000000000000000000000000000000000000000000000005f5e1000000000000000000000000000000000000000000000000000000000002eb74d400000000000000000000000002950460e2b9529d0e00284a5fa2d7bdf3fa4d72'', [get_dy_query ''0x02950460E2b9529D0E00284A5fA2d7bDF3fA4d72'' 1 0 100000000])"
  by (rule prod_eqI)
     (simp_all add: generateExchangeCallData_result generateExchangeCallData_trace
        adjusted_values exchange_other_value del: encodeParam.simps)

theorem generateExchangeCallData_frame_witness:
  "generateExchangeCallData (\<lambda>n q. Inr 99000000) [] ''0x02950460E2b9529D0E00284A5fA2d7bDF3fA4d72'' 1 0 100000000 ''0x02950460e2b9529d0e00284a5fa2d7bdf3fa4d72''
     = (Inr ''0xddc1f59d000000000000000000000000000000000000000000000000000000000000000100000000000000000000000000000000000000000000000000000000000000000000000000000000000000000000000000000000000000000000000005f5e1000000000000000000000000000000000000000000000000000000000005e62abc00000000000000000000000002950460e2b9529d0e00284a5fa2d7bdf3fa4d72'', [get_dy_query ''0x02950460E2b9529D0E00284A5fA2d7bDF3fA4d72'' 1 0 100000000])
   \<and> generateExchangeCallData (\<lambda>n q. Inr 49000000) [] ''0x02950460E2b9529D0E00284A5fA2d7bDF3fA4d72'' 1 0 100000000 ''0x02950460e2b9529d0e00284a5fa2d7bdf3fa4d72''
     = (Inr ''0xddc1f59d000000000000000000000000000000000000000000000000000000000000000100000000000000000000000000000000000000000000000000000000000000000000000000000000000000000000000000000000000000000000000005f5e1000000000000000000000000000000000000000000000000000000000002eb74d400000000000000000000000002950460e2b9529d0e00284a5fa2d7bdf3fa4d72'', [get_dy_query ''0x02950460E2b9529D0E00284A5fA2d7bDF3fA4d72'' 1 0 100000000])
   \<and> decodeFunctionData ''exchange(int128,int128,uint256,uint256,address)''
        [IntT 128, IntT 128, UIntT 256, UIntT 256, AddressT] ''0xddc1f59d000000000000000000000000000000000000000000000000000000000000000100000000000000000000000000000000000000000000000000000000000000000000000000000000000000000000000000000000000000000000000005f5e1000000000000000000000000000000000000000000000000000000000005e62abc00000000000000000000000002950460e2b9529d0e00284a5fa2d7bdf3fa4d72''
       = Some [IntArg 128 1, IntArg 128 0, UIntArg 256 100000000, UIntArg 256 98970300,
               AddressArg ''0x02950460e2b9529d0e00284a5fa2d7bdf3fa4d72'']
   \<and> decodeFunctionData ''exchange(int128,int128,uint256,uint256,address)''
        [IntT 128, IntT 128, UIntT 256, UIntT 256, AddressT] ''0xddc1f59d000000000000000000000000000000000000000000000000000000000000000100000000000000000000000000000000000000000000000000000000000000000000000000000000000000000000000000000000000000000000000005f5e1000000000000000000000000000000000000000000000000000000000002eb74d400000000000000000000000002950460e2b9529d0e00284a5fa2d7bdf3fa4d72''
       = Some [IntArg 128 1, IntArg 128 0, UIntArg 256 100000000, UIntArg 256 48985300,
               AddressArg ''0x02950460e2b9529d0e00284a5fa2d7bdf3fa4d72'']
   \<and> take 202 ''0xddc1f59d000000000000000000000000000000000000000000000000000000000000000100000000000000000000000000000000000000000000000000000000000000000000000000000000000000000000000000000000000000000000000005f5e1000000000000000000000000000000000000000000000000000000000005e62abc00000000000000000000000002950460e2b9529d0e00284a5fa2d7bdf3fa4d72'' = take 202 ''0xddc1f59d000000000000000000000000000000000000000000000000000000000000000100000000000000000000000000000000000000000000000000000000000000000000000000000000000000000000000000000000000000000000000005f5e1000000000000000000000000000000000000000000000000000000000002eb74d400000000000000000000000002950460e2b9529d0e00284a5fa2d7bdf3fa4d72''
   \<and> drop 266 ''0xddc1f59d000000000000000000000000000000000000000000000000000000000000000100000000000000000000000000000000000000000000000000000000000000000000000000000000000000000000000000000000000000000000000005f5e1000000000000000000000000000000000000000000000000000000000005e62abc00000000000000000000000002950460e2b9529d0e00284a5fa2d7bdf3fa4d72'' = drop 266 ''0xddc1f59d000000000000000000000000000000000000000000000000000000000000000100000000000000000000000000000000000000000000000000000000000000000000000000000000000000000000000000000000000000000000000005f5e1000000000000000000000000000000000000000000000000000000000002eb74d400000000000000000000000002950460e2b9529d0e00284a5fa2d7bdf3fa4d72''"
proof -
  have l: "toLowerCase ''0x02950460e2b9529d0e00284a5fa2d7bdf3fa4d72'' = ''0x02950460e2b9529d0e00284a5fa2d7bdf3fa4d72''"
    by (simp add: toLowerCase_def toLowerChar_def)
  from generateExchangeCallData_frame [OF exchange_run_1 exchange_run_2]
  show ?thesis
    unfolding l
    by (simp add: exchange_run_1 exchange_run_2 adjusted_values
        del: decodeAbiParameters.simps)
qed







end
